theory Spec2Isabelle
  imports Complex_Main
begin

section \<open>The notebook document\<close>

text \<open>
  \<^verbatim>\<open>ignis/gate_errors.ipynb\<close> is a JSON document in the notebook format 4. It is embedded as
  the JSON value it denotes: objects keep the order of their keys, and every string is the
  decoded text. \<open>BS\<close> is the backslash and \<open>NL\<close> the line feed, which a string literal
  cannot hold.
\<close>

datatype json =
    JNull
  | JBool bool
  | JNum int
  | JStr string
  | JArr "json list"
  | JObj "(string \<times> json) list"

definition BS :: string where
  "BS = [CHR 0x5C]"

definition NL :: string where
  "NL = [CHR 0x0A]"

definition gate_errors_ipynb :: json where
  "gate_errors_ipynb =
   JObj [
    (''cells'', JArr [
     JObj [
      (''cell_type'', JStr ''markdown''),
      (''metadata'', JObj []),
      (''source'', JArr [
       JStr ''<img src=\"https://raw.githubusercontent.com/Qiskit/qiskit-tutorials/master/images/qiskit-heading.png\" alt=\"Note: In order for images to show up in this jupyter notebook you need to select File => Trusted Notebook\" width=\"500 px\" align=\"left\">''])],
     JObj [
      (''cell_type'', JStr ''markdown''),
      (''metadata'', JObj []),
      (''source'', JArr [
       JStr (''## _*Gate Errors*_ '' @ NL),
       JStr NL,
       JStr NL,
       JStr (''***'' @ NL),
       JStr (''### Contributors'' @ NL),
       JStr ''David McKay''])],
     JObj [
      (''cell_type'', JStr ''markdown''),
      (''metadata'', JObj []),
      (''source'', JArr [
       JStr (''## Introduction'' @ NL),
       JStr NL,
       JStr (''The general form of an arbitrary single qubit gate is a rotation $'' @ BS @ ''theta$ around some axis in the Bloch sphere with unit vector $'' @ BS @ ''hat{n}$ such that'' @ NL),
       JStr (''$$U('' @ BS @ ''theta,'' @ BS @ ''hat{n}) = e^{-i '' @ BS @ ''theta '' @ BS @ ''hat{n} '' @ BS @ ''cdot '' @ BS @ ''sigma} $$'' @ NL),
       JStr (''Physically these rotations are performed by applying some oscillating electromagnetic field at the qubit frequency to the location of the qubit. It is not necessary to calibrate all such rotations, only a few rotation angles and axes are enough. At minimum we need a $'' @ BS @ ''pi/2$ rotation ($'' @ BS @ ''theta='' @ BS @ ''pi/4$) along two orthogonal axis. So then the calibration question becomes how to tell that the gate $X90p$ ($'' @ BS @ ''pi/2$ around $X$) is really $ e^{-i '' @ BS @ ''frac{'' @ BS @ ''pi}{4} '' @ BS @ ''sigma_X} $?'' @ NL),
       JStr NL,
       JStr (''Here we will look at different sequences to amplify possible errors in the gate.'' @ NL),
       JStr NL,
       JStr NL,
       JStr (''**Contents**'' @ NL),
       JStr NL,
       JStr (''[Amplitude](#sect1)'' @ NL),
       JStr NL,
       JStr (''[Phase](#sect2)'' @ NL),
       JStr NL,
       JStr NL,
       JStr (''### References'' @ NL),
       JStr NL,
       JStr ''[1]<a id=\"ref1\"></a> David C. McKay, Christopher J. Wood, Sarah Sheldon, Jerry M. Chow and Jay M. Gambetta. Efficient Z-Gates for Quantum Computing. https://arxiv.org/abs/1612.00858''])],
     JObj [
      (''cell_type'', JStr ''markdown''),
      (''metadata'', JObj []),
      (''source'', JArr [
       JStr (''Code imports'' @ NL),
       JStr ''==============''])],
     JObj [
      (''cell_type'', JStr ''code''),
      (''execution_count'', JNum 1),
      (''metadata'', JObj [
       (''ExecuteTime'', JObj [
        (''end_time'', JStr ''2018-12-18T15:13:54.475305Z''),
        (''start_time'', JStr ''2018-12-18T15:13:53.026353Z'')])]),
      (''outputs'', JArr []),
      (''source'', JArr [
       JStr (''# Import general libraries (needed for functions)'' @ NL),
       JStr (''import numpy as np'' @ NL),
       JStr (''import time'' @ NL),
       JStr NL,
       JStr (''# Import Qiskit classes'' @ NL),
       JStr (''import qiskit '' @ NL),
       JStr (''from qiskit import QuantumRegister, QuantumCircuit, ClassicalRegister, Aer'' @ NL),
       JStr (''from qiskit.providers.aer import noise'' @ NL),
       JStr (''from qiskit.tools.visualization import plot_histogram'' @ NL),
       JStr NL,
       JStr (''# Import measurement calibration functions'' @ NL),
       JStr (''from qiskit.ignis.mitigation.measurement import (complete_meas_cal,'' @ NL),
       JStr ''                                                       CompleteMeasFitter, MeasurementFilter)''])],
     JObj [
      (''cell_type'', JStr ''markdown''),
      (''metadata'', JObj []),
      (''source'', JArr [
       JStr ''<a id='sect1'></a>''])],
     JObj [
      (''cell_type'', JStr ''markdown''),
      (''metadata'', JObj []),
      (''source'', JArr [
       JStr (''# Amplitude Error'' @ NL),
       JStr NL,
       JStr (''Consider a gate which is a X90p, but with a slight rotation error. '' @ NL),
       JStr (''$$U = e^{-i ('' @ BS @ ''pi/2+d'' @ BS @ ''theta) '' @ BS @ ''sigma_X/2}  $$'' @ NL),
       JStr (''One way to measure $d'' @ BS @ ''theta$ would be to apply the gate starting with the qubit in the ground state and look at the $|0'' @ BS @ ''rangle$ and $|1'' @ BS @ ''rangle$ counts. However, the signal could be lost in the noise. To amplify the roration error we continually apply the gate in groups of 2,'' @ NL),
       JStr (''$$U = X90p-[X90p-X90p]^n$$'' @ NL),
       JStr NL,
       JStr (''To predict the outcome we expand using Euler's formula,'' @ NL),
       JStr (''$$X90p = '' @ BS @ ''text{cos}'' @ BS @ ''left('' @ BS @ ''frac{'' @ BS @ ''pi}{4}+'' @ BS @ ''frac{d'' @ BS @ ''theta}{2}'' @ BS @ ''right)I - '' @ BS @ ''text{sin}'' @ BS @ ''left('' @ BS @ ''frac{'' @ BS @ ''pi}{4}+'' @ BS @ ''frac{d'' @ BS @ ''theta}{2}'' @ BS @ ''right) '' @ BS @ ''sigma_X $$'' @ NL),
       JStr (''$$X90p^{2n+1} = '' @ BS @ ''text{cos}'' @ BS @ ''left(n'' @ BS @ ''frac{'' @ BS @ ''pi}{2}+nd'' @ BS @ ''theta+'' @ BS @ ''frac{'' @ BS @ ''pi}{4}+'' @ BS @ ''frac{d'' @ BS @ ''theta}{2}'' @ BS @ ''right)I - '' @ BS @ ''text{sin}'' @ BS @ ''left(n'' @ BS @ ''frac{'' @ BS @ ''pi}{2}+nd'' @ BS @ ''theta+'' @ BS @ ''frac{'' @ BS @ ''pi}{4}+'' @ BS @ ''frac{d'' @ BS @ ''theta}{2}'' @ BS @ ''right) '' @ BS @ ''sigma_X $$'' @ NL),
       JStr (''and the population in the excited state is'' @ NL),
       JStr (''$$ P_{|1'' @ BS @ ''rangle, 2n+1} = '' @ BS @ ''text{sin}^2'' @ BS @ ''left(n'' @ BS @ ''frac{'' @ BS @ ''pi}{2}+nd'' @ BS @ ''theta+'' @ BS @ ''frac{'' @ BS @ ''pi}{4}+'' @ BS @ ''frac{d'' @ BS @ ''theta}{2}'' @ BS @ ''right) $$ '' @ NL),
       JStr (''$$ P_{|1'' @ BS @ ''rangle, 2n+1} = '' @ BS @ ''frac{1}{2}-'' @ BS @ ''frac{1}{2}'' @ BS @ ''text{cos}'' @ BS @ ''left(n'' @ BS @ ''pi+2nd'' @ BS @ ''theta+'' @ BS @ ''frac{'' @ BS @ ''pi}{2}+d'' @ BS @ ''theta'' @ BS @ ''right) $$ '' @ NL),
       JStr (''$$ P_{|1'' @ BS @ ''rangle, 2n+1} = '' @ BS @ ''frac{1}{2}+'' @ BS @ ''frac{(-1)^n}{2}'' @ BS @ ''text{sin}'' @ BS @ ''left(2nd'' @ BS @ ''theta+d'' @ BS @ ''theta'' @ BS @ ''right) $$ '' @ NL),
       JStr (''for small $d'' @ BS @ ''theta$ this amplifies the error by $n$,'' @ NL),
       JStr (''$$ P_{|1'' @ BS @ ''rangle, 2n+1} '' @ BS @ ''approx '' @ BS @ ''frac{1}{2}+'' @ BS @ ''frac{(-1)^n d'' @ BS @ ''theta}{2}(2n+1) $$ '' @ NL)])],
     JObj [
      (''cell_type'', JStr ''markdown''),
      (''metadata'', JObj []),
      (''source'', JArr [
       JStr ''<a id='sect2'></a>''])],
     JObj [
      (''cell_type'', JStr ''markdown''),
      (''metadata'', JObj []),
      (''source'', JArr [
       JStr (''# Phase Error'' @ NL),
       JStr NL,
       JStr (''A phase error means that the angle between the X90p and Y90p is not perfectly $'' @ BS @ ''pi/2$. We assume the amplitude is correct so,'' @ NL),
       JStr (''$$X90p = e^{-i '' @ BS @ ''frac{'' @ BS @ ''pi}{4}'' @ BS @ ''sigma_X}$$'' @ NL),
       JStr (''$$Y90p = e^{-i '' @ BS @ ''frac{'' @ BS @ ''pi}{4}'' @ BS @ ''left['' @ BS @ ''text{cos}(d'' @ BS @ ''phi)'' @ BS @ ''sigma_Y+'' @ BS @ ''text{sin}(d'' @ BS @ ''phi)'' @ BS @ ''sigma_X'' @ BS @ ''right]}$$'' @ NL),
       JStr (''The angle error can be amplified by the sequence'' @ NL),
       JStr (''$$X90p-['' @ BS @ ''{Y90p'' @ BS @ ''}^2 '' @ BS @ ''{X90p'' @ BS @ ''}^2]^n - Y90p$$'')])],
     JObj [
      (''cell_type'', JStr ''code''),
      (''execution_count'', JNull),
      (''metadata'', JObj []),
      (''outputs'', JArr []),
      (''source'', JArr [])]]),
    (''metadata'', JObj [
     (''anaconda-cloud'', JObj []),
     (''celltoolbar'', JStr ''Tags''),
     (''hide_input'', JBool False),
     (''kernelspec'', JObj [
      (''display_name'', JStr ''Python 3''),
      (''language'', JStr ''python''),
      (''name'', JStr ''python3'')]),
     (''language_info'', JObj [
      (''codemirror_mode'', JObj [
       (''name'', JStr ''ipython''),
       (''version'', JNum 3)]),
      (''file_extension'', JStr ''.py''),
      (''mimetype'', JStr ''text/x-python''),
      (''name'', JStr ''python''),
      (''nbconvert_exporter'', JStr ''python''),
      (''pygments_lexer'', JStr ''ipython3''),
      (''version'', JStr ''3.6.8'')])]),
    (''nbformat'', JNum 4),
    (''nbformat_minor'', JNum 2)]"

subsection \<open>Reading the document\<close>

text \<open>
  The accessors follow the notebook format: the top-level key \<open>cells\<close> holds the list of
  cells, a cell's \<open>cell_type\<close> is \<open>markdown\<close> or \<open>code\<close>, and its \<open>source\<close> is a list
  of strings (or one string) whose concatenation is the cell's text.
\<close>

fun obj_get :: "string \<Rightarrow> json \<Rightarrow> json option" where
  "obj_get k (JObj kvs) = map_of kvs k"
| "obj_get k _ = None"

definition nb_cells :: "json \<Rightarrow> json list" where
  "nb_cells nb = (case obj_get ''cells'' nb of Some (JArr cs) \<Rightarrow> cs | _ \<Rightarrow> [])"

definition cell_type :: "json \<Rightarrow> string" where
  "cell_type c = (case obj_get ''cell_type'' c of Some (JStr t) \<Rightarrow> t | _ \<Rightarrow> [])"

definition is_code_cell :: "json \<Rightarrow> bool" where
  "is_code_cell c = (cell_type c = ''code'')"

definition is_markdown_cell :: "json \<Rightarrow> bool" where
  "is_markdown_cell c = (cell_type c = ''markdown'')"

fun str_of :: "json \<Rightarrow> string" where
  "str_of (JStr s) = s"
| "str_of _ = []"

definition cell_source :: "json \<Rightarrow> string" where
  "cell_source c =
     (case obj_get ''source'' c of
        Some (JArr xs) \<Rightarrow> concat (map str_of xs)
      | Some (JStr s) \<Rightarrow> s
      | _ \<Rightarrow> [])"

definition code_cells :: "json \<Rightarrow> json list" where
  "code_cells nb = filter is_code_cell (nb_cells nb)"

text \<open>The lines of a text: the pieces between line feeds (no piece after a final line feed).\<close>

fun split_lines_acc :: "string \<Rightarrow> string \<Rightarrow> string list" where
  "split_lines_acc cur [] = (if cur = [] then [] else [rev cur])"
| "split_lines_acc cur (c # cs) =
     (if c = CHR 0x0A then rev cur # split_lines_acc [] cs else split_lines_acc (c # cur) cs)"

definition split_lines :: "string \<Rightarrow> string list" where
  "split_lines s = split_lines_acc [] s"

text \<open>
  The file is written with one level of indentation per nesting depth: a scalar, an empty
  array and an empty object take one line; a non-empty array or object takes its opening
  line, the lines of its members and its closing line.
\<close>

fun json_lines :: "json \<Rightarrow> nat" where
  "json_lines (JArr []) = 1"
| "json_lines (JArr (x # xs)) = 2 + sum_list (map json_lines (x # xs))"
| "json_lines (JObj []) = 1"
| "json_lines (JObj (kv # kvs)) = 2 + sum_list (map (\<lambda>kv. json_lines (snd kv)) (kv # kvs))"
| "json_lines _ = 1"

section \<open>The Python of the code cells\<close>

text \<open>
  A code cell's text is Python source. The model reads the statements this notebook is
  made of, \<^verbatim>\<open>import m\<close>, \<^verbatim>\<open>import m as a\<close> and \<^verbatim>\<open>from m import n, ...\<close>
  (also in parentheses over several lines), and keeps every other logical line whole, as a
  statement \<open>Other\<close> whose effect is left open. String literals and backslash
  continuations are not lexed; the notebook has none.
\<close>

datatype stmt =
    Import "(string \<times> string option) list"
  | ImportFrom string "(string \<times> string option) list"
  | Other string

fun is_import :: "stmt \<Rightarrow> bool" where
  "is_import (Other l) = False"
| "is_import _ = True"

subsection \<open>Lines and tokens\<close>

definition is_space :: "char \<Rightarrow> bool" where
  "is_space c = (c = CHR '' '' \<or> c = CHR 0x09)"

definition blank :: "string \<Rightarrow> bool" where
  "blank l = list_all is_space l"

text \<open>A comment runs from \<open>#\<close> to the end of the line.\<close>

definition code_part :: "string \<Rightarrow> string" where
  "code_part l = takeWhile (\<lambda>c. c \<noteq> CHR ''#'') l"

definition is_comment_line :: "string \<Rightarrow> bool" where
  "is_comment_line l = (blank (code_part l) \<and> \<not> blank l)"

definition depth_change :: "string \<Rightarrow> int" where
  "depth_change l =
     int (length (filter (\<lambda>c. c \<in> set ''([{'') l)) - int (length (filter (\<lambda>c. c \<in> set '')]}'') l))"

text \<open>
  Logical lines: blank lines and comment lines are dropped, and a line that leaves a
  bracket open is joined with the lines that follow it until the bracket is closed.
\<close>

fun logical_lines :: "string \<Rightarrow> int \<Rightarrow> string list \<Rightarrow> string list" where
  "logical_lines cur d [] = (if cur = [] then [] else [cur])"
| "logical_lines cur d (l # ls) =
     (let t = code_part l; d' = d + depth_change t in
      if 0 < d' then logical_lines (cur @ t @ '' '') d' ls
      else if cur = [] \<and> blank t then logical_lines [] 0 ls
      else (cur @ t) # logical_lines [] 0 ls)"

fun pad_punct :: "string \<Rightarrow> string" where
  "pad_punct [] = []"
| "pad_punct (c # cs) =
     (if c \<in> set ''(),'' then CHR '' '' # c # CHR '' '' # pad_punct cs else c # pad_punct cs)"

fun words_acc :: "string \<Rightarrow> string \<Rightarrow> string list" where
  "words_acc w [] = (if w = [] then [] else [rev w])"
| "words_acc w (c # cs) =
     (if is_space c then (if w = [] then words_acc [] cs else rev w # words_acc [] cs)
      else words_acc (c # w) cs)"

definition tokens :: "string \<Rightarrow> string list" where
  "tokens l = words_acc [] (pad_punct l)"

subsection \<open>Names\<close>

definition is_name_start :: "char \<Rightarrow> bool" where
  "is_name_start c = (c \<in> set ''abcdefghijklmnopqrstuvwxyzABCDEFGHIJKLMNOPQRSTUVWXYZ_'')"

definition is_name_char :: "char \<Rightarrow> bool" where
  "is_name_char c = (is_name_start c \<or> c \<in> set ''0123456789'')"

definition py_keywords :: "string list" where
  "py_keywords =
     [''False'', ''None'', ''True'', ''and'', ''as'', ''assert'', ''async'', ''await'', ''break'',
      ''class'', ''continue'', ''def'', ''del'', ''elif'', ''else'', ''except'', ''finally'', ''for'',
      ''from'', ''global'', ''if'', ''import'', ''in'', ''is'', ''lambda'', ''nonlocal'', ''not'', ''or'',
      ''pass'', ''raise'', ''return'', ''try'', ''while'', ''with'', ''yield'']"

definition is_name :: "string \<Rightarrow> bool" where
  "is_name s =
     (case s of [] \<Rightarrow> False
      | c # cs \<Rightarrow> is_name_start c \<and> list_all is_name_char cs \<and> s \<notin> set py_keywords)"

text \<open>The components of a dotted name: \<open>a.b.c\<close> gives \<open>a\<close>, \<open>b\<close>, \<open>c\<close>.\<close>

fun split_dots_acc :: "string \<Rightarrow> string \<Rightarrow> string list" where
  "split_dots_acc cur [] = [rev cur]"
| "split_dots_acc cur (c # cs) =
     (if c = CHR ''.'' then rev cur # split_dots_acc [] cs else split_dots_acc (c # cur) cs)"

definition split_dots :: "string \<Rightarrow> string list" where
  "split_dots s = split_dots_acc [] s"

definition is_dotted_name :: "string \<Rightarrow> bool" where
  "is_dotted_name s = list_all is_name (split_dots s)"

fun is_opt_name :: "string option \<Rightarrow> bool" where
  "is_opt_name None = True"
| "is_opt_name (Some a) = is_name a"

subsection \<open>Import statements\<close>

text \<open>The items of an import list: \<open>n\<close> or \<open>n as a\<close>, separated by commas.\<close>

fun parse_items :: "string list \<Rightarrow> (string \<times> string option) list option" where
  "parse_items [] = None"
| "parse_items [n] = Some [(n, None)]"
| "parse_items [n, k] = None"
| "parse_items (n # k # a # rest) =
     (if k = '','' then map_option ((#) (n, None)) (parse_items (a # rest))
      else if k = ''as'' then
        (case rest of
           [] \<Rightarrow> Some [(n, Some a)]
         | c # rest' \<Rightarrow>
             if c = '','' then map_option ((#) (n, Some a)) (parse_items rest') else None)
      else None)"

text \<open>The names after \<^verbatim>\<open>from m import\<close> may stand in parentheses, with a trailing comma.\<close>

definition unparen :: "string list \<Rightarrow> string list" where
  "unparen ts =
     (if 2 \<le> length ts \<and> hd ts = ''('' \<and> last ts = '')'' then
        (let inner = butlast (tl ts) in
         if inner \<noteq> [] \<and> last inner = '','' then butlast inner else inner)
      else ts)"

text \<open>
  A logical line that starts with white space belongs to a compound statement and is kept
  as \<open>Other\<close>, whatever it holds.
\<close>

definition indented :: "string \<Rightarrow> bool" where
  "indented l = (case l of [] \<Rightarrow> False | c # cs \<Rightarrow> is_space c)"

definition parse_stmt :: "string \<Rightarrow> stmt" where
  "parse_stmt l =
     (case tokens l of
        [] \<Rightarrow> Other l
      | t # ts \<Rightarrow>
          if indented l then Other l
          else if t = ''import'' then
            (case parse_items ts of
               None \<Rightarrow> Other l
             | Some its \<Rightarrow>
                 if list_all (\<lambda>it. is_dotted_name (fst it) \<and> is_opt_name (snd it)) its
                 then Import its else Other l)
          else if t = ''from'' then
            (case ts of
               m # i # ns \<Rightarrow>
                 if i = ''import'' \<and> is_dotted_name m then
                   (case parse_items (unparen ns) of
                      None \<Rightarrow> Other l
                    | Some its \<Rightarrow>
                        if list_all (\<lambda>it. is_name (fst it) \<and> is_opt_name (snd it)) its
                        then ImportFrom m its else Other l)
                 else Other l
             | _ \<Rightarrow> Other l)
          else Other l)"

definition py_program :: "string \<Rightarrow> stmt list" where
  "py_program src = map parse_stmt (logical_lines [] 0 (split_lines src))"

text \<open>The statements of the notebook: those of its code cells, in the order of the cells.\<close>

definition nb_program :: "json \<Rightarrow> stmt list" where
  "nb_program nb = concat (map (\<lambda>c. py_program (cell_source c)) (code_cells nb))"

subsection \<open>Executing import statements\<close>

text \<open>
  The interpreter state: the global names with their values, the module table (the names
  of the modules loaded so far, Python's \<^verbatim>\<open>sys.modules\<close>), the text printed so far and
  the files.

  What lies outside the notebook is given by the environment: which modules exist and the
  object each one is, the attributes of an object, and the code a module runs when it is
  loaded. That load-time code is the library's: it may change the state in any way (print
  a warning, write a cache file, leave names among the globals, load further modules) and
  it may raise. The effect of a statement that is not an import is a parameter too.
\<close>

datatype py_error =
    ModuleNotFoundError string
  | ImportError string string
  | Raised string


record 'v py_state =
  globals :: "string \<rightharpoonup> 'v"
  loaded :: "string set"
  printed :: "string list"
  files :: "string \<rightharpoonup> string"

record 'v py_env =
  find_module :: "string \<Rightarrow> 'v option"
  init_module :: "string \<Rightarrow> 'v py_state \<Rightarrow> 'v py_state \<times> py_error option"
  get_attr :: "'v \<Rightarrow> string \<Rightarrow> 'v option"
  exec_other :: "string \<Rightarrow> 'v py_state \<Rightarrow> 'v py_state \<times> py_error option"

text \<open>
  Loading a module: it is entered in the module table, then its code runs; when the code
  raises, the module is taken out of the table again and the exception goes on.
\<close>

definition load_module :: "'v py_env \<Rightarrow> string \<Rightarrow> 'v py_state \<Rightarrow> 'v py_state \<times> py_error option" where
  "load_module env p s =
     (case init_module env p (s\<lparr>loaded := insert p (loaded s)\<rparr>) of
        (s', None) \<Rightarrow> (s', None)
      | (s', Some e) \<Rightarrow> (s'\<lparr>loaded := loaded s' - {p}\<rparr>, Some e))"






text \<open>
  The name an item binds: its \<open>as\<close> name when it has one; otherwise, for
  \<^verbatim>\<open>import a.b.c\<close>, the top-level package \<open>a\<close> and, for \<^verbatim>\<open>from m import n\<close>,
  the name \<open>n\<close>.
\<close>

definition top_package :: "string \<Rightarrow> string" where
  "top_package m = hd (split_dots m)"

fun import_target :: "string \<times> string option \<Rightarrow> string" where
  "import_target (m, None) = top_package m"
| "import_target (m, Some a) = a"

fun from_target :: "string \<times> string option \<Rightarrow> string" where
  "from_target (n, None) = n"
| "from_target (n, Some a) = a"

fun bound_names :: "stmt \<Rightarrow> string list" where
  "bound_names (Import its) = map import_target its"
| "bound_names (ImportFrom m its) = map from_target its"
| "bound_names (Other l) = []"

definition bind :: "string \<Rightarrow> 'v \<Rightarrow> 'v py_state \<Rightarrow> 'v py_state" where
  "bind x v s = s\<lparr>globals := (globals s)(x \<mapsto> v)\<rparr>"








subsection \<open>What a run may do, and what it binds\<close>



definition imported_names :: "json \<Rightarrow> string list" where
  "imported_names nb = concat (map bound_names (nb_program nb))"

text \<open>
  The states that loading modules of \<open>mods\<close> and binding names of \<open>names\<close> lead to, step
  by step, from a state \<open>s\<close>.
\<close>

inductive import_effects ::
  "'v py_env \<Rightarrow> string set \<Rightarrow> string set \<Rightarrow> 'v py_state \<Rightarrow> 'v py_state \<Rightarrow> bool"
  for env :: "'v py_env" and mods :: "string set" and names :: "string set" and s :: "'v py_state"
where
  start: "import_effects env mods names s s"
| load: "import_effects env mods names s s1 \<Longrightarrow> p \<in> mods \<Longrightarrow>
         import_effects env mods names s (fst (load_module env p s1))"
| bind: "import_effects env mods names s s1 \<Longrightarrow> x \<in> names \<Longrightarrow>
         import_effects env mods names s (bind x v s1)"















text \<open>The statements that are not imports, and the constructs that handle or raise failures.\<close>

definition logic_stmts :: "json \<Rightarrow> stmt list" where
  "logic_stmts nb = filter (\<lambda>st. \<not> is_import st) (nb_program nb)"




text \<open>The physical lines of the code cells, by kind.\<close>

definition code_lines :: "json \<Rightarrow> string list" where
  "code_lines nb = concat (map (\<lambda>c. split_lines (cell_source c)) (code_cells nb))"

subsection \<open>Installations to run the notebook in\<close>










section \<open>Single-qubit operators of the notebook's derivations\<close>

text \<open>
  The markdown cells of \<^verbatim>\<open>ignis/gate_errors.ipynb\<close> work with operators on one qubit:
  complex 2x2 matrices, written here row by row, the Pauli operators, and the exponential
  \<open>e^M\<close>, which is the power series \<open>\<Sum>k. M^k / k!\<close> taken entry by entry.
\<close>

datatype mat2 = Mat2 (m00: complex) (m01: complex) (m10: complex) (m11: complex)

definition mat_I :: mat2 where
  "mat_I = Mat2 1 0 0 1"

definition sigma_X :: mat2 where
  "sigma_X = Mat2 0 1 1 0"

definition sigma_Y :: mat2 where
  "sigma_Y = Mat2 0 (- \<i>) \<i> 0"

definition sigma_Z :: mat2 where
  "sigma_Z = Mat2 1 0 0 (- 1)"

fun mat_add :: "mat2 \<Rightarrow> mat2 \<Rightarrow> mat2" where
  "mat_add (Mat2 a b c d) (Mat2 e f g h) = Mat2 (a + e) (b + f) (c + g) (d + h)"

fun mat_sub :: "mat2 \<Rightarrow> mat2 \<Rightarrow> mat2" where
  "mat_sub (Mat2 a b c d) (Mat2 e f g h) = Mat2 (a - e) (b - f) (c - g) (d - h)"

fun mat_scale :: "complex \<Rightarrow> mat2 \<Rightarrow> mat2" where
  "mat_scale z (Mat2 a b c d) = Mat2 (z * a) (z * b) (z * c) (z * d)"

fun mat_mul :: "mat2 \<Rightarrow> mat2 \<Rightarrow> mat2" where
  "mat_mul (Mat2 a b c d) (Mat2 e f g h) =
     Mat2 (a * e + b * g) (a * f + b * h) (c * e + d * g) (c * f + d * h)"

primrec mat_pow :: "mat2 \<Rightarrow> nat \<Rightarrow> mat2" where
  "mat_pow M 0 = mat_I"
| "mat_pow M (Suc k) = mat_mul M (mat_pow M k)"

text \<open>The conjugate transpose.\<close>

fun dagger :: "mat2 \<Rightarrow> mat2" where
  "dagger (Mat2 a b c d) = Mat2 (cnj a) (cnj c) (cnj b) (cnj d)"

fun trace :: "mat2 \<Rightarrow> complex" where
  "trace (Mat2 a b c d) = a + d"

text \<open>The matrix exponential, as its power series in every entry.\<close>

definition mat_exp :: "mat2 \<Rightarrow> mat2" where
  "mat_exp M =
     Mat2 (\<Sum>k. m00 (mat_pow M k) / fact k) (\<Sum>k. m01 (mat_pow M k) / fact k)
          (\<Sum>k. m10 (mat_pow M k) / fact k) (\<Sum>k. m11 (mat_pow M k) / fact k)"

subsection \<open>States, gate sequences and populations\<close>

text \<open>
  A pure state \<open>a|0\<rangle> + b|1\<rangle>\<close> is the pair of its amplitudes; \<open>|0\<rangle>\<close> is the ground
  state. A pulse sequence such as \<open>X90p-[X90p-X90p]^n\<close> is the list of its gates in the
  order they are applied, and the population of the excited state is the squared modulus of
  the amplitude of \<open>|1\<rangle>\<close>.
\<close>

datatype ket = Ket (amp0: complex) (amp1: complex)

definition ket0 :: ket where
  "ket0 = Ket 1 0"

fun mat_app :: "mat2 \<Rightarrow> ket \<Rightarrow> ket" where
  "mat_app (Mat2 a b c d) (Ket x y) = Ket (a * x + b * y) (c * x + d * y)"

definition run_seq :: "mat2 list \<Rightarrow> ket \<Rightarrow> ket" where
  "run_seq gs psi = fold mat_app gs psi"

definition P_excited :: "ket \<Rightarrow> real" where
  "P_excited psi = (cmod (amp1 psi))\<^sup>2"

subsection \<open>Introduction: the general gate and the Bloch sphere\<close>

text \<open>
  Cell 2: \<open>U(\<theta>, n) = e^{-i \<theta> n \<cdot> \<sigma>}\<close> for a unit vector \<open>n\<close>, and the calibration
  target \<open>X90p = e^{-i (\<pi>/4) \<sigma>_X}\<close> (the same definition opens the phase-error cell).
\<close>

type_synonym vec3 = "real \<times> real \<times> real"

fun n_dot_sigma :: "vec3 \<Rightarrow> mat2" where
  "n_dot_sigma (x, y, z) =
     mat_add (mat_scale (complex_of_real x) sigma_X)
       (mat_add (mat_scale (complex_of_real y) sigma_Y) (mat_scale (complex_of_real z) sigma_Z))"

definition U_gate :: "real \<Rightarrow> vec3 \<Rightarrow> mat2" where
  "U_gate \<theta> n = mat_exp (mat_scale (- \<i> * complex_of_real \<theta>) (n_dot_sigma n))"

definition X90p :: mat2 where
  "X90p = mat_exp (mat_scale (- \<i> * complex_of_real (pi / 4)) sigma_X)"

text \<open>
  A density operator with Bloch vector \<open>(x, y, z)\<close> is \<open>(I + x \<sigma>_X + y \<sigma>_Y + z \<sigma>_Z) / 2\<close>;
  the Bloch vector of an operator \<open>\<rho>\<close> has the components \<open>tr (\<rho> \<sigma>_X)\<close>, \<open>tr (\<rho> \<sigma>_Y)\<close>,
  \<open>tr (\<rho> \<sigma>_Z)\<close>. A gate \<open>U\<close> takes \<open>\<rho>\<close> to \<open>U \<rho> U\<^sup>\<dagger>\<close>.
\<close>

definition density :: "vec3 \<Rightarrow> mat2" where
  "density v = mat_scale (1 / 2) (mat_add mat_I (n_dot_sigma v))"

definition bloch :: "mat2 \<Rightarrow> vec3" where
  "bloch \<rho> = (Re (trace (mat_mul \<rho> sigma_X)), Re (trace (mat_mul \<rho> sigma_Y)),
              Re (trace (mat_mul \<rho> sigma_Z)))"

definition conjugate :: "mat2 \<Rightarrow> mat2 \<Rightarrow> mat2" where
  "conjugate U \<rho> = mat_mul U (mat_mul \<rho> (dagger U))"

text \<open>The rotation of a vector by the angle \<open>\<alpha>\<close> about the x axis (right-handed).\<close>

fun rot_x :: "real \<Rightarrow> vec3 \<Rightarrow> vec3" where
  "rot_x \<alpha> (x, y, z) = (x, y * cos \<alpha> - z * sin \<alpha>, y * sin \<alpha> + z * cos \<alpha>)"

text \<open>
  The rotation by the angle \<open>\<alpha>\<close> about a unit vector \<open>n\<close> (Rodrigues' formula):
  \<open>v cos \<alpha> + (n \<times> v) sin \<alpha> + n (n \<cdot> v) (1 - cos \<alpha>)\<close>.
\<close>

fun rot_axis :: "real \<Rightarrow> vec3 \<Rightarrow> vec3 \<Rightarrow> vec3" where
  "rot_axis \<alpha> (nx, ny, nz) (x, y, z) =
     (x * cos \<alpha> + (ny * z - nz * y) * sin \<alpha> + nx * (nx * x + ny * y + nz * z) * (1 - cos \<alpha>),
      y * cos \<alpha> + (nz * x - nx * z) * sin \<alpha> + ny * (nx * x + ny * y + nz * z) * (1 - cos \<alpha>),
      z * cos \<alpha> + (nx * y - ny * x) * sin \<alpha> + nz * (nx * x + ny * y + nz * z) * (1 - cos \<alpha>))"

definition unit_vec :: "vec3 \<Rightarrow> bool" where
  "unit_vec n = (case n of (nx, ny, nz) \<Rightarrow> nx\<^sup>2 + ny\<^sup>2 + nz\<^sup>2 = 1)"

subsection \<open>Amplitude error (cell 6)\<close>

text \<open>
  The miscalibrated gate \<open>U = e^{-i (\<pi>/2 + d\<theta>) \<sigma>_X / 2}\<close> and the amplification sequence
  \<open>X90p-[X90p-X90p]^n\<close>, every gate of which is that \<open>U\<close>.
\<close>

definition X90p_err :: "real \<Rightarrow> mat2" where
  "X90p_err d\<theta> = mat_exp (mat_scale (- \<i> * complex_of_real (pi / 2 + d\<theta>) / 2) sigma_X)"

definition amp_sequence :: "real \<Rightarrow> nat \<Rightarrow> mat2 list" where
  "amp_sequence d\<theta> n = X90p_err d\<theta> # concat (replicate n [X90p_err d\<theta>, X90p_err d\<theta>])"

definition P1_amp :: "nat \<Rightarrow> real \<Rightarrow> real" where
  "P1_amp n d\<theta> = P_excited (run_seq (amp_sequence d\<theta> n) ket0)"

text \<open>The small-angle line: \<open>P \<approx> 1/2 + ((-1)^n d\<theta> / 2) (2n + 1)\<close>.\<close>

definition P1_amp_linear :: "nat \<Rightarrow> real \<Rightarrow> real" where
  "P1_amp_linear n d\<theta> = 1 / 2 + (- 1) ^ n * d\<theta> / 2 * (2 * real n + 1)"

text \<open>
  The two displayed lines of the expansion "using Euler's formula", as the notebook prints
  them: \<open>X90p = cos(\<pi>/4 + d\<theta>/2) I - sin(\<pi>/4 + d\<theta>/2) \<sigma>_X\<close> and
  \<open>X90p^{2n+1} = cos(n\<pi>/2 + n d\<theta> + \<pi>/4 + d\<theta>/2) I - sin(n\<pi>/2 + n d\<theta> + \<pi>/4 + d\<theta>/2) \<sigma>_X\<close>.
\<close>

definition X90p_displayed :: "real \<Rightarrow> mat2" where
  "X90p_displayed d\<theta> =
     mat_sub (mat_scale (complex_of_real (cos (pi / 4 + d\<theta> / 2))) mat_I)
             (mat_scale (complex_of_real (sin (pi / 4 + d\<theta> / 2))) sigma_X)"

definition X90p_pow_displayed :: "nat \<Rightarrow> real \<Rightarrow> mat2" where
  "X90p_pow_displayed n d\<theta> =
     mat_sub (mat_scale (complex_of_real (cos (real n * pi / 2 + real n * d\<theta> + pi / 4 + d\<theta> / 2))) mat_I)
             (mat_scale (complex_of_real (sin (real n * pi / 2 + real n * d\<theta> + pi / 4 + d\<theta> / 2))) sigma_X)"

text \<open>The same two lines with the factor \<open>i\<close> that Euler's formula puts on the sine.\<close>

definition rot_form :: "real \<Rightarrow> mat2 \<Rightarrow> mat2" where
  "rot_form a S =
     mat_sub (mat_scale (complex_of_real (cos a)) mat_I)
             (mat_scale (\<i> * complex_of_real (sin a)) S)"

subsection \<open>Phase error (cell 8)\<close>

text \<open>
  \<open>Y90p = e^{-i (\<pi>/4) [cos(d\<phi>) \<sigma>_Y + sin(d\<phi>) \<sigma>_X]}\<close> and the sequence
  \<open>X90p-[{Y90p}^2 {X90p}^2]^n-Y90p\<close>.
\<close>

definition Y90p :: "real \<Rightarrow> mat2" where
  "Y90p d\<phi> =
     mat_exp (mat_scale (- \<i> * complex_of_real (pi / 4))
       (mat_add (mat_scale (complex_of_real (cos d\<phi>)) sigma_Y)
                (mat_scale (complex_of_real (sin d\<phi>)) sigma_X)))"

definition phase_sequence :: "real \<Rightarrow> nat \<Rightarrow> mat2 list" where
  "phase_sequence d\<phi> n =
     [X90p] @ concat (replicate n [Y90p d\<phi>, Y90p d\<phi>, X90p, X90p]) @ [Y90p d\<phi>]"

section \<open>The exponential of an involution\<close>

lemma mat_pow_involution:
  assumes "mat_mul S S = mat_I"
  shows "mat_pow (mat_scale z S) k = mat_scale (z ^ k) (if even k then mat_I else S)"
proof (induction k)
  case 0
  show ?case by (simp add: mat_I_def)
next
  case (Suc k)
  obtain a b c d where S: "S = Mat2 a b c d" by (cases S)
  from assms have sq: "a * a + b * c = 1" "a * b + b * d = 0" "c * a + d * c = 0" "c * b + d * d = 1"
    by (simp_all add: S mat_I_def)
  show ?case
  proof (cases "even k")
    case True
    with Suc show ?thesis by (simp add: S mat_I_def)
  next
    case False
    have "z * a * (z ^ k * a) + z * b * (z ^ k * c) = z * z ^ k * (a * a + b * c)"
         "z * a * (z ^ k * b) + z * b * (z ^ k * d) = z * z ^ k * (a * b + b * d)"
         "z * c * (z ^ k * a) + z * d * (z ^ k * c) = z * z ^ k * (c * a + d * c)"
         "z * c * (z ^ k * b) + z * d * (z ^ k * d) = z * z ^ k * (c * b + d * d)"
      by (simp_all add: algebra_simps)
    with False Suc sq show ?thesis by (simp add: S mat_I_def)
  qed
qed

lemma cosh_minus_ii: "cosh (- (\<i> * complex_of_real a)) = complex_of_real (cos a)"
proof -
  have "exp (\<i> * complex_of_real a) = cis a" "exp (- (\<i> * complex_of_real a)) = cis (- a)"
    by (simp_all add: cis_conv_exp)
  then show ?thesis
    by (simp add: cosh_def complex_eq_iff)
qed

lemma sinh_minus_ii: "sinh (- (\<i> * complex_of_real a)) = - (\<i> * complex_of_real (sin a))"
proof -
  have "exp (\<i> * complex_of_real a) = cis a" "exp (- (\<i> * complex_of_real a)) = cis (- a)"
    by (simp_all add: cis_conv_exp)
  then show ?thesis
    by (simp add: sinh_def complex_eq_iff)
qed

lemma scaleR_fact: "(w::complex) /\<^sub>R fact k = w / fact k"
  by (simp add: scaleR_conv_of_real divide_inverse mult.commute of_real_inverse)

lemma even_series: "(\<lambda>k. if even k then z ^ k / fact k else 0) sums cosh (z::complex)"
  using cosh_converges [of z] unfolding scaleR_fact .

lemma odd_series: "(\<lambda>k. if even k then 0 else z ^ k / fact k) sums sinh (z::complex)"
  using sinh_converges [of z] unfolding scaleR_fact .

lemma parity_series:
  "(\<lambda>k. (if even k then z ^ k * p else z ^ k * q) / fact k) sums (cosh (z::complex) * p + sinh z * q)"
proof -
  have "(\<lambda>k. (if even k then z ^ k / fact k else 0) * p + (if even k then 0 else z ^ k / fact k) * q)
          sums (cosh z * p + sinh z * q)"
    by (intro sums_add sums_mult2 even_series odd_series)
  moreover have "(\<lambda>k. (if even k then z ^ k / fact k else 0) * p + (if even k then 0 else z ^ k / fact k) * q)
     = (\<lambda>k. (if even k then z ^ k * p else z ^ k * q) / fact k)"
    by (rule ext) simp
  ultimately show ?thesis by simp
qed

lemma mat_exp_involution:
  assumes "mat_mul S S = mat_I"
  shows "mat_exp (mat_scale z S) = mat_add (mat_scale (cosh z) mat_I) (mat_scale (sinh z) S)"
proof -
  obtain a b c d where S: "S = Mat2 a b c d" by (cases S)
  have e: "\<And>k. mat_pow (mat_scale z S) k =
      Mat2 (if even k then z ^ k * 1 else z ^ k * a) (if even k then z ^ k * 0 else z ^ k * b)
           (if even k then z ^ k * 0 else z ^ k * c) (if even k then z ^ k * 1 else z ^ k * d)"
    unfolding mat_pow_involution [OF assms] by (simp add: S mat_I_def)
  show ?thesis
    unfolding mat_exp_def e mat2.sel
    by (simp only: sums_unique [OF parity_series, symmetric] S mat_I_def mat_scale.simps mat_add.simps)
qed

section \<open>Rotations generated by an involution\<close>

lemma sigma_X_sq: "mat_mul sigma_X sigma_X = mat_I" by (simp add: sigma_X_def mat_I_def)
lemma sigma_Y_sq: "mat_mul sigma_Y sigma_Y = mat_I" by (simp add: sigma_Y_def mat_I_def)
lemma sigma_Z_sq: "mat_mul sigma_Z sigma_Z = mat_I" by (simp add: sigma_Z_def mat_I_def)

lemma mat_exp_rot:
  assumes "mat_mul S S = mat_I"
  shows "mat_exp (mat_scale (- \<i> * complex_of_real a) S) = rot_form a S"
proof -
  obtain p q r s where S: "S = Mat2 p q r s" by (cases S)
  have "mat_exp (mat_scale (- (\<i> * complex_of_real a)) S) = rot_form a S"
    unfolding mat_exp_involution [OF assms] cosh_minus_ii sinh_minus_ii
    by (simp add: rot_form_def S mat_I_def)
  then show ?thesis by simp
qed

lemma rot_form_mul:
  assumes "mat_mul S S = mat_I"
  shows "mat_mul (rot_form a S) (rot_form b S) = rot_form (a + b) S"
proof -
  obtain p q r s where S: "S = Mat2 p q r s" by (cases S)
  from assms have sq: "p * p + q * r = 1" "p * q + q * s = 0" "r * p + s * r = 0" "r * q + s * s = 1"
    by (simp_all add: S mat_I_def)
  define cA sA cB sB where "cA = complex_of_real (cos a)" and "sA = complex_of_real (sin a)"
    and "cB = complex_of_real (cos b)" and "sB = complex_of_real (sin b)"
  have e: "complex_of_real (cos (a + b)) = cA * cB - sA * sB"
          "complex_of_real (sin (a + b)) = sA * cB + cA * sB"
    by (simp_all add: cA_def sA_def cB_def sB_def cos_add sin_add)
  have ii: "\<i> * \<i> = - 1" by simp
  have "(cA - \<i> * sA * p) * (cB - \<i> * sB * p) + (- (\<i> * sA * q)) * (- (\<i> * sB * r))
          = (cA * cB - sA * sB) - \<i> * (sA * cB + cA * sB) * p"
    using sq ii by algebra
  moreover have "(cA - \<i> * sA * p) * (- (\<i> * sB * q)) + (- (\<i> * sA * q)) * (cB - \<i> * sB * s)
          = - (\<i> * (sA * cB + cA * sB) * q)"
    using sq ii by algebra
  moreover have "(- (\<i> * sA * r)) * (cB - \<i> * sB * p) + (cA - \<i> * sA * s) * (- (\<i> * sB * r))
          = - (\<i> * (sA * cB + cA * sB) * r)"
    using sq ii by algebra
  moreover have "(- (\<i> * sA * r)) * (- (\<i> * sB * q)) + (cA - \<i> * sA * s) * (cB - \<i> * sB * s)
          = (cA * cB - sA * sB) - \<i> * (sA * cB + cA * sB) * s"
    using sq ii by algebra
  ultimately show ?thesis
    unfolding rot_form_def e cA_def [symmetric] sA_def [symmetric] cB_def [symmetric] sB_def [symmetric]
    by (simp add: S mat_I_def)
qed

lemma rot_form_0: "rot_form 0 S = mat_I"
  by (cases S) (simp add: rot_form_def mat_I_def)

lemma rot_form_pow:
  assumes "mat_mul S S = mat_I"
  shows "mat_pow (rot_form a S) k = rot_form (real k * a) S"
proof (induction k)
  case 0
  show ?case by (simp add: rot_form_0)
next
  case (Suc k)
  have "a + real k * a = real (Suc k) * a" by (simp add: algebra_simps)
  with Suc show ?case by (simp add: rot_form_mul [OF assms])
qed

lemma mat_app_mul: "mat_app (mat_mul A B) psi = mat_app A (mat_app B psi)"
  by (cases A; cases B; cases psi) (simp add: algebra_simps)

lemma mat_app_I: "mat_app mat_I psi = psi"
  by (cases psi) (simp add: mat_I_def)

lemma run_seq_replicate: "run_seq (replicate k U) psi = mat_app (mat_pow U k) psi"
proof (induction k arbitrary: psi)
  case 0
  show ?case by (simp add: run_seq_def mat_app_I)
next
  case (Suc k)
  have "run_seq (replicate (Suc k) U) psi = run_seq (replicate k U @ [U]) psi"
    by (simp only: replicate_append_same) simp
  also have "\<dots> = mat_app U (run_seq (replicate k U) psi)"
    by (simp add: run_seq_def)
  finally show ?case by (simp add: Suc mat_app_mul)
qed

section \<open>Amplitude error: population after the amplification sequence\<close>

lemma X90p_err_rot: "X90p_err d = rot_form (pi / 4 + d / 2) sigma_X"
proof -
  have "- \<i> * complex_of_real (pi / 2 + d) / 2 = - \<i> * complex_of_real (pi / 4 + d / 2)"
    by simp
  then show ?thesis
    unfolding X90p_err_def by (simp only: mat_exp_rot [OF sigma_X_sq])
qed

lemma concat_pairs: "concat (replicate n [U, U]) = replicate (2 * n) U"
  by (induction n) simp_all

lemma amp_sequence_replicate: "amp_sequence d n = replicate (2 * n + 1) (X90p_err d)"
  by (simp add: amp_sequence_def concat_pairs)

lemma P_excited_rot_X: "P_excited (mat_app (rot_form a sigma_X) ket0) = (sin a)\<^sup>2"
  by (simp add: rot_form_def sigma_X_def mat_I_def ket0_def P_excited_def norm_mult power2_eq_square)

lemma sin_sq_quarter:
  "(sin (real (2 * n + 1) * (pi / 4 + d / 2)))\<^sup>2 = 1 / 2 + (- 1) ^ n / 2 * sin (real (2 * n + 1) * d)"
proof -
  define y where "y = real (2 * n + 1) * d"
  have "2 * (real (2 * n + 1) * (pi / 4 + d / 2)) = real n * pi + (pi / 2 + y)"
    by (simp add: y_def algebra_simps)
  then have "cos (2 * (real (2 * n + 1) * (pi / 4 + d / 2))) = cos (real n * pi + (pi / 2 + y))"
    by simp
  also have "\<dots> = (- 1) ^ n * cos (pi / 2 + y)"
    by (simp only: cos_add [of "real n * pi"] cos_npi sin_npi)
  also have "\<dots> = - ((- 1) ^ n * sin y)"
    by (simp add: cos_add)
  finally have "1 - 2 * (sin (real (2 * n + 1) * (pi / 4 + d / 2)))\<^sup>2 = - ((- 1) ^ n * sin y)"
    by (simp only: cos_double_sin)
  then show ?thesis
    unfolding y_def by (simp add: field_simps)
qed

lemma P1_amp_closed: "P1_amp n d = 1 / 2 + (- 1) ^ n / 2 * sin (real (2 * n + 1) * d)"
  unfolding P1_amp_def amp_sequence_replicate run_seq_replicate X90p_err_rot
    rot_form_pow [OF sigma_X_sq] P_excited_rot_X
  by (rule sin_sq_quarter)

text \<open>
  Claim C1. The amplification sequence is the miscalibrated gate applied \<open>2n + 1\<close>
  times, and from the ground state it leaves the excited-state population
  \<open>1/2 + ((-1)^n / 2) sin((2n + 1) d\<theta>)\<close>, for every \<open>n\<close> and every real \<open>d\<theta>\<close>.
\<close>

theorem amplitude_error_population:
  "amp_sequence d\<theta> n = replicate (2 * n + 1) (X90p_err d\<theta>) \<and>
   P1_amp n d\<theta> = 1 / 2 + (- 1) ^ n / 2 * sin ((2 * real n + 1) * d\<theta>)"
proof -
  have "real (2 * n + 1) = 2 * real n + 1" by simp
  then have "P1_amp n d\<theta> = 1 / 2 + (- 1) ^ n / 2 * sin ((2 * real n + 1) * d\<theta>)"
    using P1_amp_closed [of n d\<theta>] by (simp only:)
  then show ?thesis
    using amp_sequence_replicate [of d\<theta> n] by (simp only: simp_thms)
qed

lemma P1_amp_deriv:
  "(P1_amp n has_real_derivative ((- 1) ^ n / 2 * (real (2 * n + 1) * cos (real (2 * n + 1) * d)))) (at d)"
proof -
  have "((\<lambda>d. 1 / 2 + (- 1) ^ n / 2 * sin (real (2 * n + 1) * d)) has_real_derivative
          ((- 1) ^ n / 2 * (real (2 * n + 1) * cos (real (2 * n + 1) * d)))) (at d)"
    by (auto intro!: derivative_eq_intros)
  moreover have "P1_amp n = (\<lambda>d. 1 / 2 + (- 1) ^ n / 2 * sin (real (2 * n + 1) * d))"
    by (rule ext) (rule P1_amp_closed)
  ultimately show ?thesis by simp
qed

text \<open>
  Claim C2. Around \<open>d\<theta> = 0\<close> the population and the notebook's linear expression agree
  to first order: both are \<open>1/2\<close> at \<open>0\<close>, both have the derivative
  \<open>(-1)^n (2n + 1) / 2\<close> there, and their difference vanishes faster than \<open>d\<theta>\<close>. The
  slope grows linearly with the number \<open>2n + 1\<close> of gates.
\<close>

theorem amplitude_error_first_order:
  "P1_amp n 0 = 1 / 2 \<and>
   (P1_amp n has_real_derivative ((- 1) ^ n * (2 * real n + 1) / 2)) (at 0) \<and>
   P1_amp_linear n 0 = 1 / 2 \<and>
   (P1_amp_linear n has_real_derivative ((- 1) ^ n * (2 * real n + 1) / 2)) (at 0) \<and>
   ((\<lambda>d\<theta>. (P1_amp n d\<theta> - P1_amp_linear n d\<theta>) / d\<theta>) \<longlongrightarrow> 0) (at 0)"
proof -
  let ?D = "(- 1) ^ n * (2 * real n + 1) / 2"
  have v: "P1_amp n 0 = 1 / 2" by (simp add: P1_amp_closed)
  have "(- 1) ^ n / 2 * (real (2 * n + 1) * cos (real (2 * n + 1) * 0)) = ?D"
    by simp
  then have d: "(P1_amp n has_real_derivative ?D) (at 0)"
    using P1_amp_deriv [of n 0] by (simp only:)
  have lv: "P1_amp_linear n 0 = 1 / 2" by (simp add: P1_amp_linear_def)
  have "((\<lambda>d. 1 / 2 + (- 1) ^ n * d / 2 * (2 * real n + 1)) has_real_derivative ?D) (at 0)"
    by (auto intro!: derivative_eq_intros)
  then have ld: "(P1_amp_linear n has_real_derivative ?D) (at 0)"
    unfolding P1_amp_linear_def [abs_def] .
  from d have "(\<lambda>h. (P1_amp n (0 + h) - P1_amp n 0) / h) \<midarrow>0\<rightarrow> ?D"
    by (simp only: DERIV_def)
  then have "((\<lambda>h. (P1_amp n h - 1 / 2) / h - ?D) \<longlongrightarrow> ?D - ?D) (at 0)"
    by (intro tendsto_diff tendsto_const) (simp add: v)
  then have "((\<lambda>h. (P1_amp n h - 1 / 2) / h - ?D) \<longlongrightarrow> 0) (at 0)"
    by simp
  moreover have "\<forall>\<^sub>F h in at 0. (P1_amp n h - 1 / 2) / h - ?D = (P1_amp n h - P1_amp_linear n h) / h"
    unfolding eventually_at_filter
    by (rule always_eventually) (simp add: P1_amp_linear_def field_simps)
  ultimately have "((\<lambda>h. (P1_amp n h - P1_amp_linear n h) / h) \<longlongrightarrow> 0) (at 0)"
    by (rule Lim_transform_eventually)
  with v d lv ld show ?thesis by (simp only: simp_thms)
qed

section \<open>The printed Euler expansion\<close>

text \<open>
  The notebook expands its gate \<open>U = e^{-i (\<pi>/2 + d\<theta>) \<sigma>_X / 2}\<close> "using Euler's formula",
  but the line it displays has no factor \<open>i\<close> on the sine term: the displayed matrix is
  not the gate.
\<close>

lemma displayed_not_gate: "X90p_displayed 0 \<noteq> X90p_err 0"
proof
  assume a: "X90p_displayed 0 = X90p_err 0"
  have "m01 (X90p_displayed 0) = complex_of_real (- (sqrt 2 / 2))"
    by (simp add: X90p_displayed_def mat_I_def sigma_X_def sin_45)
  moreover have "m01 (X90p_err 0) = - (\<i> * complex_of_real (sqrt 2 / 2))"
    by (simp add: X90p_err_rot rot_form_def mat_I_def sigma_X_def sin_45)
  ultimately have "complex_of_real (- (sqrt 2 / 2)) = - (\<i> * complex_of_real (sqrt 2 / 2))"
    using a by simp
  then have "Re (complex_of_real (- (sqrt 2 / 2))) = Re (- (\<i> * complex_of_real (sqrt 2 / 2)))"
    by (simp only:)
  then show False by simp
qed

text \<open>
  Claim C3. With \<open>X90p\<close> the matrix \<open>cos(\<pi>/4 + d\<theta>/2) I - sin(\<pi>/4 + d\<theta>/2) \<sigma>_X\<close> as the
  notebook displays it, the power \<open>2n + 1\<close> is not the displayed
  \<open>cos(n\<pi>/2 + n d\<theta> + \<pi>/4 + d\<theta>/2) I - sin(n\<pi>/2 + n d\<theta> + \<pi>/4 + d\<theta>/2) \<sigma>_X\<close>: at
  \<open>d\<theta> = 0\<close>, \<open>n = 1\<close> the cube of the displayed matrix has the entry \<open>sqrt 2\<close> where the
  displayed power has \<open>cos(3\<pi>/4) = - sqrt 2 / 2\<close>. Both displayed lines have lost the
  factor \<open>i\<close> of Euler's formula.
\<close>

theorem displayed_power_counterexample:
  "mat_pow (X90p_displayed 0) (2 * 1 + 1) \<noteq> X90p_pow_displayed 1 0"
proof
  assume a: "mat_pow (X90p_displayed 0) (2 * 1 + 1) = X90p_pow_displayed 1 0"
  have three: "(2 * 1 + 1 :: nat) = Suc (Suc (Suc 0))" by simp
  have "cos (pi / 2 + pi / 4) = cos (pi / 2) * cos (pi / 4) - sin (pi / 2) * sin (pi / 4)"
    by (rule cos_add)
  moreover have "pi / 2 + pi / 4 = 3 * pi / 4" by simp
  ultimately have c3: "cos (3 * pi / 4) = - (sqrt 2 / 2)"
    by (simp add: sin_45)
  have "m00 (mat_pow (X90p_displayed 0) (2 * 1 + 1)) = complex_of_real (sqrt 2)"
    unfolding three
    by (simp add: X90p_displayed_def mat_I_def sigma_X_def cos_45 sin_45 complex_eq_iff algebra_simps)
  moreover have "m00 (X90p_pow_displayed 1 0) = complex_of_real (- (sqrt 2 / 2))"
    by (simp add: X90p_pow_displayed_def mat_I_def sigma_X_def c3)
  ultimately have "complex_of_real (sqrt 2) = complex_of_real (- (sqrt 2 / 2))"
    using a by simp
  then have "sqrt 2 = - (sqrt 2 / 2)"
    by (simp only: of_real_eq_iff)
  moreover have "0 < sqrt 2" by simp
  ultimately show False by linarith
qed

text \<open>
  With the factor \<open>i\<close> in both lines the identity holds of the gate itself:
  \<open>e^{-i (\<pi>/2 + d\<theta>) \<sigma>_X / 2}\<close> is \<open>cos(\<pi>/4 + d\<theta>/2) I - i sin(\<pi>/4 + d\<theta>/2) \<sigma>_X\<close>, and
  its power \<open>2n + 1\<close> is
  \<open>cos(n\<pi>/2 + n d\<theta> + \<pi>/4 + d\<theta>/2) I - i sin(n\<pi>/2 + n d\<theta> + \<pi>/4 + d\<theta>/2) \<sigma>_X\<close>.
\<close>

lemma euler_power_identity:
  "X90p_err d\<theta> = rot_form (pi / 4 + d\<theta> / 2) sigma_X \<and>
   mat_pow (X90p_err d\<theta>) (2 * n + 1) =
     rot_form (real n * pi / 2 + real n * d\<theta> + pi / 4 + d\<theta> / 2) sigma_X"
proof -
  have "real (2 * n + 1) * (pi / 4 + d\<theta> / 2) = real n * pi / 2 + real n * d\<theta> + pi / 4 + d\<theta> / 2"
    by (simp add: algebra_simps)
  then have "mat_pow (X90p_err d\<theta>) (2 * n + 1) =
     rot_form (real n * pi / 2 + real n * d\<theta> + pi / 4 + d\<theta> / 2) sigma_X"
    unfolding X90p_err_rot rot_form_pow [OF sigma_X_sq] by (simp only:)
  then show ?thesis
    using X90p_err_rot [of d\<theta>] by (simp only: simp_thms)
qed

section \<open>Phase error: the sequence at zero phase error\<close>

lemma run_seq_append: "run_seq (xs @ ys) psi = run_seq ys (run_seq xs psi)"
  by (simp add: run_seq_def)

lemma run_seq_Cons: "run_seq (g # gs) psi = run_seq gs (mat_app g psi)"
  by (simp add: run_seq_def)

lemma run_seq_Nil: "run_seq [] psi = psi"
  by (simp add: run_seq_def)

lemma X90p_rot: "X90p = rot_form (pi / 4) sigma_X"
  unfolding X90p_def by (rule mat_exp_rot [OF sigma_X_sq])

lemma Y90p_0_arg:
  "mat_add (mat_scale (complex_of_real (cos 0)) sigma_Y) (mat_scale (complex_of_real (sin 0)) sigma_X)
     = sigma_Y"
  by (simp add: sigma_Y_def sigma_X_def)

lemma Y90p_0_rot: "Y90p 0 = rot_form (pi / 4) sigma_Y"
  unfolding Y90p_def Y90p_0_arg by (rule mat_exp_rot [OF sigma_Y_sq])

lemma rot_half_pi_X: "rot_form (pi / 2) sigma_X = Mat2 0 (- \<i>) (- \<i>) 0"
  by (simp add: rot_form_def mat_I_def sigma_X_def)

lemma rot_half_pi_Y: "rot_form (pi / 2) sigma_Y = Mat2 0 (- 1) 1 0"
  by (simp add: rot_form_def mat_I_def sigma_Y_def)

lemma XX: "mat_mul X90p X90p = Mat2 0 (- \<i>) (- \<i>) 0"
  unfolding X90p_rot rot_form_mul [OF sigma_X_sq] using rot_half_pi_X by simp

lemma YY: "mat_mul (Y90p 0) (Y90p 0) = Mat2 0 (- 1) 1 0"
  unfolding Y90p_0_rot rot_form_mul [OF sigma_Y_sq] using rot_half_pi_Y by simp

lemma block_YYXX:
  "run_seq [Y90p 0, Y90p 0, X90p, X90p] (Ket a b) = Ket (- \<i> * a) (\<i> * b)"
proof -
  have "run_seq [Y90p 0, Y90p 0, X90p, X90p] (Ket a b)
          = mat_app (mat_mul X90p X90p) (mat_app (mat_mul (Y90p 0) (Y90p 0)) (Ket a b))"
    by (simp add: run_seq_def mat_app_mul)
  then show ?thesis by (simp add: XX YY)
qed

lemma block_XXYY:
  "run_seq [X90p, X90p, Y90p 0, Y90p 0] (Ket a b) = Ket (\<i> * a) (- \<i> * b)"
proof -
  have "run_seq [X90p, X90p, Y90p 0, Y90p 0] (Ket a b)
          = mat_app (mat_mul (Y90p 0) (Y90p 0)) (mat_app (mat_mul X90p X90p) (Ket a b))"
    by (simp add: run_seq_def mat_app_mul)
  then show ?thesis by (simp add: XX YY)
qed

lemma blocks_YYXX:
  "run_seq (concat (replicate n [Y90p 0, Y90p 0, X90p, X90p])) (Ket a b)
     = Ket ((- \<i>) ^ n * a) (\<i> ^ n * b)"
proof (induction n arbitrary: a b)
  case 0
  show ?case by (simp add: run_seq_Nil)
next
  case (Suc n)
  have "run_seq (concat (replicate (Suc n) [Y90p 0, Y90p 0, X90p, X90p])) (Ket a b)
      = run_seq (concat (replicate n [Y90p 0, Y90p 0, X90p, X90p]))
          (run_seq [Y90p 0, Y90p 0, X90p, X90p] (Ket a b))"
    by (simp only: replicate_Suc concat.simps run_seq_append)
  then show ?case by (simp only: block_YYXX Suc) (simp add: mult.assoc [symmetric] power_commutes)
qed

lemma blocks_XXYY:
  "run_seq (concat (replicate n [X90p, X90p, Y90p 0, Y90p 0])) (Ket a b)
     = Ket (\<i> ^ n * a) ((- \<i>) ^ n * b)"
proof (induction n arbitrary: a b)
  case 0
  show ?case by (simp add: run_seq_Nil)
next
  case (Suc n)
  have "run_seq (concat (replicate (Suc n) [X90p, X90p, Y90p 0, Y90p 0])) (Ket a b)
      = run_seq (concat (replicate n [X90p, X90p, Y90p 0, Y90p 0]))
          (run_seq [X90p, X90p, Y90p 0, Y90p 0] (Ket a b))"
    by (simp only: replicate_Suc concat.simps run_seq_append)
  then show ?case by (simp only: block_XXYY Suc) (simp add: mult.assoc [symmetric] power_commutes)
qed

lemma X90p_ket0: "mat_app X90p ket0 = Ket (complex_of_real (sqrt 2 / 2)) (- \<i> * complex_of_real (sqrt 2 / 2))"
  by (simp add: X90p_rot rot_form_def mat_I_def sigma_X_def ket0_def cos_45 sin_45)

lemma Y90p_ket0: "mat_app (Y90p 0) ket0 = Ket (complex_of_real (sqrt 2 / 2)) (complex_of_real (sqrt 2 / 2))"
  by (simp add: Y90p_0_rot rot_form_def mat_I_def sigma_Y_def ket0_def cos_45 sin_45 complex_eq_iff)

lemma amp1_X90p: "amp1 (mat_app X90p (Ket a b)) = complex_of_real (sqrt 2 / 2) * (b - \<i> * a)"
  by (simp add: X90p_rot rot_form_def mat_I_def sigma_X_def cos_45 sin_45 algebra_simps)

lemma amp1_Y90p: "amp1 (mat_app (Y90p 0) (Ket a b)) = complex_of_real (sqrt 2 / 2) * (a + b)"
  by (simp add: Y90p_0_rot rot_form_def mat_I_def sigma_Y_def cos_45 sin_45 algebra_simps)

lemma cmod_unit_sum: "(cmod ((- 1) ^ n - \<i>))\<^sup>2 = 2"
  by (cases "even n") (simp_all add: cmod_power2)

lemma cmod_quarter_turns: "(cmod ((- \<i>) ^ n - \<i> * \<i> ^ n))\<^sup>2 = 2"
proof -
  have "(- \<i>) ^ n - \<i> * \<i> ^ n = \<i> ^ n * ((- 1) ^ n - \<i>)"
    by (simp add: power_minus [of \<i>] algebra_simps)
  then show ?thesis
    by (simp only: norm_mult norm_power norm_ii power_one mult_1 cmod_unit_sum)
qed

lemma half_pop:
  assumes "(cmod w)\<^sup>2 = 2"
  shows "(cmod (complex_of_real (sqrt 2 / 2) * (complex_of_real (sqrt 2 / 2) * w)))\<^sup>2 = 1 / 2"
proof -
  have "cmod (complex_of_real (sqrt 2 / 2) * (complex_of_real (sqrt 2 / 2) * w)) = cmod w / 2"
    by (simp add: norm_mult)
  then show ?thesis using assms by (simp add: power_divide)
qed

lemma phase_sequence_forward: "P_excited (run_seq (phase_sequence 0 n) ket0) = 1 / 2"
proof -
  let ?h = "complex_of_real (sqrt 2 / 2)"
  have "run_seq (phase_sequence 0 n) ket0
      = mat_app (Y90p 0) (run_seq (concat (replicate n [Y90p 0, Y90p 0, X90p, X90p])) (mat_app X90p ket0))"
    by (simp add: phase_sequence_def run_seq_append run_seq_Cons run_seq_Nil)
  also have "\<dots> = mat_app (Y90p 0) (Ket ((- \<i>) ^ n * ?h) (\<i> ^ n * (- \<i> * ?h)))"
    by (simp only: X90p_ket0 blocks_YYXX)
  finally have "amp1 (run_seq (phase_sequence 0 n) ket0) = ?h * ((- \<i>) ^ n * ?h + \<i> ^ n * (- \<i> * ?h))"
    by (simp only: amp1_Y90p)
  also have "\<dots> = ?h * (?h * ((- \<i>) ^ n - \<i> * \<i> ^ n))"
    by (simp add: algebra_simps)
  finally show ?thesis
    unfolding P_excited_def by (simp only: half_pop [OF cmod_quarter_turns])
qed

lemma rev_phase_sequence:
  "rev (phase_sequence d n) = [Y90p d] @ concat (replicate n [X90p, X90p, Y90p d, Y90p d]) @ [X90p]"
  by (simp add: phase_sequence_def rev_concat rev_replicate)

lemma phase_sequence_backward: "P_excited (run_seq (rev (phase_sequence 0 n)) ket0) = 1 / 2"
proof -
  let ?h = "complex_of_real (sqrt 2 / 2)"
  have "run_seq (rev (phase_sequence 0 n)) ket0
      = mat_app X90p (run_seq (concat (replicate n [X90p, X90p, Y90p 0, Y90p 0])) (mat_app (Y90p 0) ket0))"
    by (simp only: rev_phase_sequence run_seq_append run_seq_Cons run_seq_Nil)
  also have "\<dots> = mat_app X90p (Ket (\<i> ^ n * ?h) ((- \<i>) ^ n * ?h))"
    by (simp only: Y90p_ket0 blocks_XXYY)
  finally have "amp1 (run_seq (rev (phase_sequence 0 n)) ket0) = ?h * ((- \<i>) ^ n * ?h - \<i> * (\<i> ^ n * ?h))"
    by (simp only: amp1_X90p)
  also have "\<dots> = ?h * (?h * ((- \<i>) ^ n - \<i> * \<i> ^ n))"
    by (simp add: algebra_simps)
  finally show ?thesis
    unfolding P_excited_def by (simp only: half_pop [OF cmod_quarter_turns])
qed

text \<open>
  Claim C4. At \<open>d\<phi> = 0\<close> the gate \<open>Y90p\<close> is \<open>e^{-i (\<pi>/4) \<sigma>_Y}\<close>, and the sequence
  \<open>X90p-[{Y90p}^2 {X90p}^2]^n-Y90p\<close> takes the ground state to an excited-state population of
  exactly \<open>1/2\<close> for every \<open>n\<close>, whether the sequence is read as the order in time (first
  gate first) or as an operator product (last factor first).
\<close>

theorem phase_sequence_zero_error:
  "Y90p 0 = mat_exp (mat_scale (- \<i> * complex_of_real (pi / 4)) sigma_Y) \<and>
   P_excited (run_seq (phase_sequence 0 n) ket0) = 1 / 2 \<and>
   P_excited (run_seq (rev (phase_sequence 0 n)) ket0) = 1 / 2"
proof -
  have "Y90p 0 = mat_exp (mat_scale (- \<i> * complex_of_real (pi / 4)) sigma_Y)"
    unfolding Y90p_def Y90p_0_arg ..
  then show ?thesis
    using phase_sequence_forward [of n] phase_sequence_backward [of n] by (simp only: simp_thms)
qed

section \<open>X90p on the Bloch sphere\<close>

lemma n_dot_sigma_x: "n_dot_sigma (1, 0, 0) = sigma_X"
  by (simp add: sigma_X_def sigma_Y_def sigma_Z_def)

lemma U_gate_x: "U_gate \<theta> (1, 0, 0) = rot_form \<theta> sigma_X"
  unfolding U_gate_def n_dot_sigma_x by (rule mat_exp_rot [OF sigma_X_sq])

lemma X90p_U_gate: "X90p = U_gate (pi / 4) (1, 0, 0)"
  by (simp only: U_gate_x X90p_rot)

lemma rot_X_matrix:
  "rot_form \<theta> sigma_X = Mat2 (complex_of_real (cos \<theta>)) (- \<i> * complex_of_real (sin \<theta>))
                                (- \<i> * complex_of_real (sin \<theta>)) (complex_of_real (cos \<theta>))"
  by (simp add: rot_form_def mat_I_def sigma_X_def)

lemma bloch_density: "bloch (density v) = v"
  by (cases v) (simp add: bloch_def density_def mat_I_def sigma_X_def sigma_Y_def sigma_Z_def field_simps)

lemma conjugate_rot_X_density:
  "conjugate (rot_form \<theta> sigma_X) (density v) = density (rot_x (2 * \<theta>) v)"
proof -
  obtain x y z where v: "v = (x, y, z)" by (cases v)
  have cs: "(cos \<theta>)\<^sup>2 + (sin \<theta>)\<^sup>2 = 1" by simp
  show ?thesis
    unfolding rot_X_matrix v
    apply (simp add: conjugate_def density_def mat_I_def sigma_X_def sigma_Y_def sigma_Z_def
        complex_eq_iff cos_double sin_double)
    apply (intro conjI; (algebra | use cs in algebra))
    done
qed

lemma bloch_conjugate_rot_X:
  "bloch (conjugate (rot_form \<theta> sigma_X) \<rho>) = rot_x (2 * \<theta>) (bloch \<rho>)"
proof -
  obtain a b c d where r: "\<rho> = Mat2 a b c d" by (cases \<rho>)
  have cs: "(cos \<theta>)\<^sup>2 + (sin \<theta>)\<^sup>2 = 1" by simp
  show ?thesis
    unfolding rot_X_matrix r
    apply (simp add: conjugate_def bloch_def mat_I_def sigma_X_def sigma_Y_def sigma_Z_def
        cos_double sin_double)
    apply (intro conjI; (algebra | use cs in algebra))
    done
qed

lemma n_dot_sigma_matrix:
  "n_dot_sigma (nx, ny, nz) = Mat2 (complex_of_real nz) (Complex nx (- ny)) (Complex nx ny) (- complex_of_real nz)"
  by (simp add: sigma_X_def sigma_Y_def sigma_Z_def complex_eq_iff)

lemma n_dot_sigma_sq:
  assumes "unit_vec n"
  shows "mat_mul (n_dot_sigma n) (n_dot_sigma n) = mat_I"
proof -
  obtain nx ny nz where n: "n = (nx, ny, nz)" by (cases n)
  from assms have u: "nx * nx + ny * ny + nz * nz = 1"
    by (simp add: unit_vec_def n power2_eq_square)
  then have "nz * nz + (nx * nx + ny * ny) = 1" by simp
  with u show ?thesis
    unfolding n n_dot_sigma_matrix
    by (simp add: mat_I_def complex_eq_iff)
qed

lemma U_gate_rot: "unit_vec n \<Longrightarrow> U_gate \<theta> n = rot_form \<theta> (n_dot_sigma n)"
  unfolding U_gate_def by (rule mat_exp_rot [OF n_dot_sigma_sq])

lemma rot_form_n_matrix:
  "rot_form \<theta> (n_dot_sigma (nx, ny, nz)) =
     Mat2 (Complex (cos \<theta>) (- (sin \<theta> * nz))) (Complex (- (sin \<theta> * ny)) (- (sin \<theta> * nx)))
          (Complex (sin \<theta> * ny) (- (sin \<theta> * nx))) (Complex (cos \<theta>) (sin \<theta> * nz))"
  unfolding n_dot_sigma_matrix
  by (simp add: rot_form_def mat_I_def complex_eq_iff)

lemma density_matrix:
  "density (x, y, z) = Mat2 (complex_of_real ((1 + z) / 2)) (Complex (x / 2) (- y / 2))
                            (Complex (x / 2) (y / 2)) (complex_of_real ((1 - z) / 2))"
  unfolding density_def n_dot_sigma_matrix
  by (simp add: mat_I_def complex_eq_iff)

lemma conjugate_rot_density:
  assumes "unit_vec n"
  shows "conjugate (rot_form \<theta> (n_dot_sigma n)) (density v) = density (rot_axis (2 * \<theta>) n v)"
proof -
  obtain nx ny nz where n: "n = (nx, ny, nz)" by (cases n)
  obtain x y z where v: "v = (x, y, z)" by (cases v)
  from assms have u: "nx\<^sup>2 + ny\<^sup>2 + nz\<^sup>2 = 1"
    by (simp add: unit_vec_def n)
  have cs: "(cos \<theta>)\<^sup>2 + (sin \<theta>)\<^sup>2 = 1" by simp
  have c2: "cos \<theta> * cos \<theta> = 1 - sin \<theta> * sin \<theta>"
    using cos_squared_eq [of \<theta>] by (simp only: power2_eq_square)
  have c2': "\<And>t. cos \<theta> * (cos \<theta> * t) = (1 - sin \<theta> * sin \<theta>) * t"
    using c2 by (simp add: mult.assoc [symmetric])
  have n2: "nz * nz = 1 - nx * nx - ny * ny"
    using u unfolding power2_eq_square by linarith
  have n2': "\<And>t. nz * (nz * t) = (1 - nx * nx - ny * ny) * t"
    using n2 by (simp add: mult.assoc [symmetric])
  show ?thesis
    unfolding n v rot_form_n_matrix rot_axis.simps density_matrix conjugate_def
    apply (simp add: complex_eq_iff cos_double sin_double)
    apply (intro conjI)
    subgoal by (simp add: field_simps power2_eq_square c2 c2' n2 n2')
    subgoal by (simp add: field_simps power2_eq_square c2 c2' n2 n2')
    subgoal by (simp add: field_simps power2_eq_square c2 c2' n2 n2')
    subgoal by (simp add: field_simps power2_eq_square c2 c2' n2 n2')
    subgoal by (simp add: field_simps power2_eq_square c2 c2' n2 n2')
    subgoal by (simp add: field_simps power2_eq_square c2 c2' n2 n2')
    subgoal by (simp add: field_simps power2_eq_square c2 c2' n2 n2')
    subgoal by (simp add: field_simps power2_eq_square c2 c2' n2 n2')
    done
qed

text \<open>
  Claim C9. \<open>X90p = e^{-i (\<pi>/4) \<sigma>_X}\<close> is the general gate at \<open>\<theta> = \<pi>/4\<close> about the x
  axis, and conjugating an operator by it turns the Bloch vector by \<open>\<pi>/2\<close> about the x axis.
  In general \<open>U(\<theta>, n) = e^{-i \<theta> n \<cdot> \<sigma>}\<close> with a unit vector \<open>n\<close> turns the Bloch vector by
  \<open>2\<theta>\<close> about \<open>n\<close>, so that a rotation by \<open>\<pi>/2\<close> is \<open>\<theta> = \<pi>/4\<close>.
\<close>

theorem X90p_quarter_turn:
  "X90p = U_gate (pi / 4) (1, 0, 0) \<and>
   conjugate X90p (density v) = density (rot_x (pi / 2) v) \<and>
   bloch (conjugate X90p \<rho>) = rot_x (pi / 2) (bloch \<rho>) \<and>
   bloch (density v) = v \<and>
   rot_x \<alpha> v = rot_axis \<alpha> (1, 0, 0) v \<and>
   bloch (conjugate (U_gate \<theta> (1, 0, 0)) \<rho>) = rot_x (2 * \<theta>) (bloch \<rho>) \<and>
   (unit_vec n \<longrightarrow> conjugate (U_gate \<theta> n) (density v) = density (rot_axis (2 * \<theta>) n v))"
proof -
  have "2 * (pi / 4) = pi / 2" by simp
  then have a: "conjugate X90p (density v) = density (rot_x (pi / 2) v)"
    and b: "bloch (conjugate X90p \<rho>) = rot_x (pi / 2) (bloch \<rho>)"
    using conjugate_rot_X_density [of "pi / 4" v] bloch_conjugate_rot_X [of "pi / 4" \<rho>]
    by (simp_all only: X90p_rot)
  have c: "rot_x \<alpha> v = rot_axis \<alpha> (1, 0, 0) v"
    by (cases v) (simp add: algebra_simps)
  have d: "bloch (conjugate (U_gate \<theta> (1, 0, 0)) \<rho>) = rot_x (2 * \<theta>) (bloch \<rho>)"
    using bloch_conjugate_rot_X [of \<theta> \<rho>] by (simp only: U_gate_x)
  have e: "unit_vec n \<longrightarrow> conjugate (U_gate \<theta> n) (density v) = density (rot_axis (2 * \<theta>) n v)"
    by (simp add: U_gate_rot conjugate_rot_density)
  from X90p_U_gate a b bloch_density [of v] c d e show ?thesis
    by (simp only: simp_thms)
qed

theorem X90p_quarter_turn_witness:
  "unit_vec (0, 1, 0) \<and>
   conjugate (U_gate (pi / 4) (0, 1, 0)) (density (0, 0, 1)) = density (1, 0, 0) \<and>
   conjugate X90p (density (0, 0, 1)) = density (0, - 1, 0)"
proof -
  have u: "unit_vec (0, 1, 0)" by (simp add: unit_vec_def)
  have "rot_axis (2 * (pi / 4)) (0, 1, 0) (0, 0, 1) = (1, 0, 0)" by simp
  moreover have "rot_x (pi / 2) (0, 0, 1) = (0, - 1, 0)" by simp
  ultimately show ?thesis
    using u X90p_quarter_turn [where n = "(0, 1, 0)" and \<theta> = "pi / 4" and v = "(0, 0, 1)"]
    by simp
qed

section \<open>Properties of import statements\<close>

subsection \<open>A run only loads modules and binds names\<close>











subsection \<open>Quiet loading leaves output, files and other globals alone\<close>

lemma bind_frame [simp]:
  "printed (bind x v s) = printed s" "files (bind x v s) = files s"
  "loaded (bind x v s) = loaded s" "globals (bind x v s) = (globals s)(x \<mapsto> v)"
  by (simp_all add: bind_def)



subsection \<open>What a normal run binds\<close>

















subsection \<open>When a run ends normally, and what can end it\<close>














subsection \<open>The exceptions that can end an import\<close>












subsection \<open>Statements that are not imports play no part\<close>










section \<open>The notebook's cells and imports\<close>

lemma cell_types_eval:
  "map cell_type (nb_cells gate_errors_ipynb) =
     [''markdown'', ''markdown'', ''markdown'', ''markdown'', ''code'',
      ''markdown'', ''markdown'', ''markdown'', ''markdown'', ''code'']"
  by code_simp

lemma code_cell_programs_eval:
  "map (\<lambda>c. py_program (cell_source c)) (code_cells gate_errors_ipynb) =
     [[Import [(''numpy'', Some ''np'')],
       Import [(''time'', None)],
       Import [(''qiskit'', None)],
       ImportFrom ''qiskit''
         [(''QuantumRegister'', None), (''QuantumCircuit'', None), (''ClassicalRegister'', None),
          (''Aer'', None)],
       ImportFrom ''qiskit.providers.aer'' [(''noise'', None)],
       ImportFrom ''qiskit.tools.visualization'' [(''plot_histogram'', None)],
       ImportFrom ''qiskit.ignis.mitigation.measurement''
         [(''complete_meas_cal'', None), (''CompleteMeasFitter'', None),
          (''MeasurementFilter'', None)]],
      []]"
  by code_simp

lemma nb_program_eval:
  "nb_program gate_errors_ipynb =
     [Import [(''numpy'', Some ''np'')],
      Import [(''time'', None)],
      Import [(''qiskit'', None)],
      ImportFrom ''qiskit''
        [(''QuantumRegister'', None), (''QuantumCircuit'', None), (''ClassicalRegister'', None),
         (''Aer'', None)],
      ImportFrom ''qiskit.providers.aer'' [(''noise'', None)],
      ImportFrom ''qiskit.tools.visualization'' [(''plot_histogram'', None)],
      ImportFrom ''qiskit.ignis.mitigation.measurement''
        [(''complete_meas_cal'', None), (''CompleteMeasFitter'', None),
         (''MeasurementFilter'', None)]]"
  unfolding nb_program_def code_cell_programs_eval by simp


lemma logic_stmts_eval: "logic_stmts gate_errors_ipynb = []"
  unfolding logic_stmts_def nb_program_eval by simp

lemma top_package_eval:
  "top_package ''numpy'' = ''numpy''" "top_package ''time'' = ''time''"
  "top_package ''qiskit'' = ''qiskit''"
  by code_simp+

lemma imported_names_eval:
  "imported_names gate_errors_ipynb =
     [''np'', ''time'', ''qiskit'', ''QuantumRegister'', ''QuantumCircuit'', ''ClassicalRegister'',
      ''Aer'', ''noise'', ''plot_histogram'', ''complete_meas_cal'', ''CompleteMeasFitter'',
      ''MeasurementFilter'']"
  unfolding imported_names_def nb_program_eval by (simp add: top_package_eval)

text \<open>
  Claim C6. The notebook has one cell with statements, and they import exactly: \<open>numpy\<close>
  (as \<open>np\<close>), \<open>time\<close>, \<open>qiskit\<close>; \<open>QuantumRegister\<close>, \<open>QuantumCircuit\<close>,
  \<open>ClassicalRegister\<close> and \<open>Aer\<close> from \<open>qiskit\<close>; \<open>noise\<close> from
  \<open>qiskit.providers.aer\<close>; \<open>plot_histogram\<close> from \<open>qiskit.tools.visualization\<close>; and
  \<open>complete_meas_cal\<close>, \<open>CompleteMeasFitter\<close>, \<open>MeasurementFilter\<close> from
  \<open>qiskit.ignis.mitigation.measurement\<close>. These twelve names are all it binds.
\<close>

theorem import_cell_imports:
  "map (\<lambda>c. py_program (cell_source c)) (code_cells gate_errors_ipynb) =
     [[Import [(''numpy'', Some ''np'')],
       Import [(''time'', None)],
       Import [(''qiskit'', None)],
       ImportFrom ''qiskit''
         [(''QuantumRegister'', None), (''QuantumCircuit'', None), (''ClassicalRegister'', None),
          (''Aer'', None)],
       ImportFrom ''qiskit.providers.aer'' [(''noise'', None)],
       ImportFrom ''qiskit.tools.visualization'' [(''plot_histogram'', None)],
       ImportFrom ''qiskit.ignis.mitigation.measurement''
         [(''complete_meas_cal'', None), (''CompleteMeasFitter'', None),
          (''MeasurementFilter'', None)]],
      []] \<and>
   imported_names gate_errors_ipynb =
     [''np'', ''time'', ''qiskit'', ''QuantumRegister'', ''QuantumCircuit'', ''ClassicalRegister'',
      ''Aer'', ''noise'', ''plot_histogram'', ''complete_meas_cal'', ''CompleteMeasFitter'',
      ''MeasurementFilter''] \<and>
   logic_stmts gate_errors_ipynb = []"
  using code_cell_programs_eval imported_names_eval logic_stmts_eval by (simp only: simp_thms)

lemma code_cells_eval:
  "length (code_cells gate_errors_ipynb) = 2 \<and>
   list_all is_markdown_cell (filter (\<lambda>c. \<not> is_code_cell c) (nb_cells gate_errors_ipynb)) \<and>
   length (nb_cells gate_errors_ipynb) = 10"
  by code_simp

lemma code_lines_eval:
  "map (\<lambda>c. length (split_lines (cell_source c))) (code_cells gate_errors_ipynb) = [13, 0] \<and>
   map (\<lambda>c. length (filter is_comment_line (split_lines (cell_source c)))) (code_cells gate_errors_ipynb) = [3, 0] \<and>
   map (\<lambda>c. length (filter blank (split_lines (cell_source c)))) (code_cells gate_errors_ipynb) = [2, 0] \<and>
   map cell_source (code_cells gate_errors_ipynb) ! 1 = []"
  by code_simp

text \<open>
  Claim C7. The notebook is a list of ten cells; the fifth and the tenth are its two code
  cells and every other cell is a markdown cell. The first code cell has thirteen lines:
  three comment lines, two blank lines and the lines of seven import statements, and nothing
  else; the source of the second code cell is empty.
\<close>

theorem notebook_cells:
  "map cell_type (nb_cells gate_errors_ipynb) =
     [''markdown'', ''markdown'', ''markdown'', ''markdown'', ''code'',
      ''markdown'', ''markdown'', ''markdown'', ''markdown'', ''code''] \<and>
   length (code_cells gate_errors_ipynb) = 2 \<and>
   list_all is_markdown_cell (filter (\<lambda>c. \<not> is_code_cell c) (nb_cells gate_errors_ipynb)) \<and>
   map (\<lambda>c. length (split_lines (cell_source c))) (code_cells gate_errors_ipynb) = [13, 0] \<and>
   map (\<lambda>c. length (filter is_comment_line (split_lines (cell_source c)))) (code_cells gate_errors_ipynb) = [3, 0] \<and>
   map (\<lambda>c. length (filter blank (split_lines (cell_source c)))) (code_cells gate_errors_ipynb) = [2, 0] \<and>
   map (\<lambda>c. length (py_program (cell_source c))) (code_cells gate_errors_ipynb) = [7, 0] \<and>
   map (\<lambda>c. list_all is_import (py_program (cell_source c))) (code_cells gate_errors_ipynb) = [True, True] \<and>
   map cell_source (code_cells gate_errors_ipynb) ! 1 = []"
proof -
  have "map (\<lambda>c. length (py_program (cell_source c))) (code_cells gate_errors_ipynb)
          = map length (map (\<lambda>c. py_program (cell_source c)) (code_cells gate_errors_ipynb))"
    by (simp add: comp_def)
  then have a: "map (\<lambda>c. length (py_program (cell_source c))) (code_cells gate_errors_ipynb) = [7, 0]"
    unfolding code_cell_programs_eval by simp
  have "map (\<lambda>c. list_all is_import (py_program (cell_source c))) (code_cells gate_errors_ipynb)
          = map (list_all is_import) (map (\<lambda>c. py_program (cell_source c)) (code_cells gate_errors_ipynb))"
    by (simp add: comp_def)
  then have b: "map (\<lambda>c. list_all is_import (py_program (cell_source c))) (code_cells gate_errors_ipynb) = [True, True]"
    unfolding code_cell_programs_eval by simp
  show ?thesis
    using cell_types_eval code_cells_eval code_lines_eval a b by (simp only: simp_thms)
qed

lemma json_lines_eval: "json_lines gate_errors_ipynb = 162"
  by code_simp

lemma code_lines_length: "length (code_lines gate_errors_ipynb) = 13"
  by code_simp

text \<open>
  Claim C10. Laid out as the file is, the document has 162 lines, within 3 of the 159 the
  specification estimates; 13 of them are the source lines of the code cells, and no
  statement of the notebook is anything but an import.
\<close>

theorem notebook_size:
  "json_lines gate_errors_ipynb = 162 \<and>
   \<bar>int (json_lines gate_errors_ipynb) - 159\<bar> \<le> 3 \<and>
   length (code_lines gate_errors_ipynb) = 13 \<and>
   length (logic_stmts gate_errors_ipynb) = 0"
  using json_lines_eval code_lines_length logic_stmts_eval by simp

section \<open>Running the notebook\<close>
























end
